theory Spec2Isabelle
  imports Complex_Main "HOL-Library.Log_Nat"
begin

section \<open>Numbers\<close>

text \<open>
  The source is TypeScript: every number is an IEEE-754 double. Most of the geometry below
  is modelled in exact arithmetic on \<^typ>\<open>real\<close>, that is on finite, non-NaN values
  without rounding; the properties proved there compare a computed value with a bound and
  do not depend on the last bit. Division by zero is \<open>Infinity\<close> or \<open>NaN\<close> in the source
  and \<open>0\<close> in HOL, so every theorem whose conclusion depends on the value of a quotient
  carries the hypothesis that the divisor is not zero. Where the source itself tests for
  \<open>NaN\<close> (the aspect-ratio parser), the values are modelled by the datatype \<open>jsnum\<close>
  further down.

  Where a property is an equality between two computed values (the seeded transform and
  its clamp) rounding decides it, and the computation is modelled in double precision:
  every arithmetic operation returns \<open>binary64\<close> of its exact result, the nearest number
  with a 53-bit significand, ties to the even significand. The exponent range is not
  bounded here, so there is no overflow, underflow or subnormal number.
\<close>

text \<open>Rounding to the nearest integer, ties to even.\<close>

definition roundEven :: "real \<Rightarrow> int" where
  "roundEven v =
     (let f = \<lfloor>v\<rfloor>; r = v - of_int f
      in if r < 1 / 2 then f
         else if 1 / 2 < r then f + 1
         else if even f then f else f + 1)"

text \<open>The binary exponent of a positive number: \<open>2 powi e \<le> v < 2 powi (e + 1)\<close>.\<close>

definition exponent :: "real \<Rightarrow> int" where
  "exponent v = (if 1 \<le> v then bitlen \<lfloor>v\<rfloor> - 1 else - bitlen (\<lceil>1 / v\<rceil> - 1))"

definition binary64 :: "real \<Rightarrow> real" where
  "binary64 v =
     (if v = 0 then 0
      else let e = exponent \<bar>v\<bar>
           in of_int (roundEven (v * 2 powi (52 - e))) * 2 powi (e - 52))"

section \<open>Data model\<close>

text \<open>\<^verbatim>\<open>interface Transform { scale: number; x: number; y: number; }\<close>\<close>

record Transform =
  scale :: real
  x :: real
  y :: real

text \<open>
  \<^verbatim>\<open>interface Dimensions { width: number; height: number; }\<close>
  The canvas element is read only through \<open>canvas.width\<close> and \<open>canvas.height\<close>, so it is
  a \<open>Dimensions\<close> value too.
\<close>

record Dimensions =
  width :: real
  height :: real

section \<open>Viewport transform controller (hooks/useImageTransform)\<close>

text \<open>
  \<^verbatim>\<open>
  const clampPosition = (newTransform, canvas, imgDim) => {
      const { scale, x, y } = newTransform;
      const scaledWidth = imgDim.width * scale;
      const scaledHeight = imgDim.height * scale;
      const clampedX = Math.min(0, Math.max(x, canvas.width - scaledWidth));
      const clampedY = Math.min(0, Math.max(y, canvas.height - scaledHeight));
      return { ...newTransform, x: clampedX, y: clampedY };
  };
  \<close>
\<close>

definition clampPosition :: "Transform \<Rightarrow> Dimensions \<Rightarrow> Dimensions \<Rightarrow> Transform" where
  "clampPosition newTransform canvas imgDim =
     (let scaledWidth = width imgDim * scale newTransform;
          scaledHeight = height imgDim * scale newTransform;
          clampedX = min 0 (max (x newTransform) (width canvas - scaledWidth));
          clampedY = min 0 (max (y newTransform) (height canvas - scaledHeight))
      in newTransform\<lparr>x := clampedX, y := clampedY\<rparr>)"

text \<open>
  The state updater of \<open>handleMouseMove\<close>, for a pointer movement \<open>(dx, dy)\<close>:
  \<^verbatim>\<open>
  setTransform(prevTransform => {
      const newTransform = { ...prevTransform, x: prevTransform.x + dx, y: prevTransform.y + dy };
      return clampPosition(newTransform, canvas, imageDimensions);
  });
  \<close>
\<close>

definition dragUpdate :: "real \<Rightarrow> real \<Rightarrow> Dimensions \<Rightarrow> Dimensions \<Rightarrow> Transform \<Rightarrow> Transform" where
  "dragUpdate dx dy canvas imageDimensions prevTransform =
     (let newTransform = prevTransform\<lparr>x := x prevTransform + dx, y := y prevTransform + dy\<rparr>
      in clampPosition newTransform canvas imageDimensions)"

text \<open>
  The mutable refs of the hook, \<open>isDraggingRef\<close> and \<open>lastMousePositionRef\<close>, and the mouse
  handlers that thread them. A mouse event is its \<open>(offsetX, offsetY)\<close>.
\<close>

record Refs =
  isDragging :: bool
  lastMousePosition :: "real \<times> real"

definition handleMouseDown :: "real \<times> real \<Rightarrow> Refs \<Rightarrow> Refs" where
  "handleMouseDown e r = r\<lparr>isDragging := True, lastMousePosition := e\<rparr>"

definition handleMouseUp :: "Refs \<Rightarrow> Refs" where
  "handleMouseUp r = r\<lparr>isDragging := False\<rparr>"

definition handleMouseLeave :: "Refs \<Rightarrow> Refs" where
  "handleMouseLeave r = r\<lparr>isDragging := False\<rparr>"

definition handleMouseMove ::
  "real \<times> real \<Rightarrow> Dimensions \<Rightarrow> Dimensions \<Rightarrow> Refs \<times> Transform \<Rightarrow> Refs \<times> Transform" where
  "handleMouseMove e canvas imageDimensions st =
     (let r = fst st; prevTransform = snd st in
      if \<not> isDragging r then st
      else
        let dx = fst e - fst (lastMousePosition r);
            dy = snd e - snd (lastMousePosition r)
        in (r\<lparr>lastMousePosition := e\<rparr>,
            dragUpdate dx dy canvas imageDimensions prevTransform))"

text \<open>
  The state updater of \<open>handleWheel\<close>, for a wheel event with \<open>deltaY\<close> at
  \<open>(offsetX, offsetY)\<close>:
  \<^verbatim>\<open>
  const scaleAmount = e.deltaY * -0.001;
  setTransform(prevTransform => {
      const newScale = Math.max(0.1, prevTransform.scale + scaleAmount);
      const mouseX = e.offsetX;  const mouseY = e.offsetY;
      const imagePointX = (mouseX - prevTransform.x) / prevTransform.scale;
      const imagePointY = (mouseY - prevTransform.y) / prevTransform.scale;
      const newX = mouseX - imagePointX * newScale;
      const newY = mouseY - imagePointY * newScale;
      const newTransform = { scale: newScale, x: newX, y: newY };
      const clamped = clampPosition(newTransform, canvas, imageDimensions);
      if (clamped.scale * imageDimensions.width < canvas.width
          || clamped.scale * imageDimensions.height < canvas.height) {
         return prevTransform; // or reset to cover
      }
      return clamped;
  });
  \<close>
  The updater is split in two: \<open>wheelCandidate\<close> is the value of \<open>clamped\<close>, and
  \<open>handleWheel\<close> is the coverage test on it.
\<close>

definition wheelCandidate ::
  "real \<Rightarrow> real \<Rightarrow> real \<Rightarrow> Dimensions \<Rightarrow> Dimensions \<Rightarrow> Transform \<Rightarrow> Transform" where
  "wheelCandidate deltaY offsetX offsetY canvas imageDimensions prevTransform =
     (let scaleAmount = deltaY * (- (1 / 1000));
          newScale = max (1 / 10) (scale prevTransform + scaleAmount);
          mouseX = offsetX;
          mouseY = offsetY;
          imagePointX = (mouseX - x prevTransform) / scale prevTransform;
          imagePointY = (mouseY - y prevTransform) / scale prevTransform;
          newX = mouseX - imagePointX * newScale;
          newY = mouseY - imagePointY * newScale;
          newTransform = \<lparr>scale = newScale, x = newX, y = newY\<rparr>
      in clampPosition newTransform canvas imageDimensions)"

definition handleWheel ::
  "real \<Rightarrow> real \<Rightarrow> real \<Rightarrow> Dimensions \<Rightarrow> Dimensions \<Rightarrow> Transform \<Rightarrow> Transform" where
  "handleWheel deltaY offsetX offsetY canvas imageDimensions prevTransform =
     (let clamped = wheelCandidate deltaY offsetX offsetY canvas imageDimensions prevTransform
      in if scale clamped * width imageDimensions < width canvas
            \<or> scale clamped * height imageDimensions < height canvas
         then prevTransform
         else clamped)"

text \<open>
  The initial ``cover'' transform of \<open>handleSelectAspectRatio\<close> (components/ImageEditor):
  \<^verbatim>\<open>
  const canvasRatio = canvas.width / canvas.height;
  const imageRatio = imageDimensions.width / imageDimensions.height;
  let scale = 1;
  if (canvasRatio > imageRatio) { scale = canvas.width / imageDimensions.width; }
  else { scale = canvas.height / imageDimensions.height; }
  setTransform({ scale,
      x: (canvas.width - imageDimensions.width * scale) / 2,
      y: (canvas.height - imageDimensions.height * scale) / 2 });
  \<close>
  Every quotient, product and difference is rounded to double precision.
\<close>

definition coverTransform :: "Dimensions \<Rightarrow> Dimensions \<Rightarrow> Transform" where
  "coverTransform canvas imageDimensions =
     (let canvasRatio = binary64 (width canvas / height canvas);
          imageRatio = binary64 (width imageDimensions / height imageDimensions);
          scale' = (if canvasRatio > imageRatio
                    then binary64 (width canvas / width imageDimensions)
                    else binary64 (height canvas / height imageDimensions))
      in \<lparr>scale = scale',
          x = binary64 (binary64 (width canvas - binary64 (width imageDimensions * scale')) / 2),
          y = binary64 (binary64 (height canvas - binary64 (height imageDimensions * scale')) / 2)\<rparr>)"


text \<open>The seed without rounding, for comparison.\<close>

definition coverTransformExact :: "Dimensions \<Rightarrow> Dimensions \<Rightarrow> Transform" where
  "coverTransformExact canvas imageDimensions =
     (let canvasRatio = width canvas / height canvas;
          imageRatio = width imageDimensions / height imageDimensions;
          scale' = (if canvasRatio > imageRatio
                    then width canvas / width imageDimensions
                    else height canvas / height imageDimensions)
      in \<lparr>scale = scale',
          x = (width canvas - width imageDimensions * scale') / 2,
          y = (height canvas - height imageDimensions * scale') / 2\<rparr>)"

subsection \<open>The cover invariant\<close>

text \<open>
  The two halves of the invariant of the data model: the scaled image is at least as large
  as the canvas frame on both axes, and the position lies within the bounds derived from
  that. \<open>coverScale\<close> is the least scale that covers the frame.
\<close>

definition scaleCovers :: "Transform \<Rightarrow> Dimensions \<Rightarrow> Dimensions \<Rightarrow> bool" where
  "scaleCovers t canvas imgDim =
     (scale t * width imgDim \<ge> width canvas \<and> scale t * height imgDim \<ge> height canvas)"

definition positionInBounds :: "Transform \<Rightarrow> Dimensions \<Rightarrow> Dimensions \<Rightarrow> bool" where
  "positionInBounds t canvas imgDim =
     (width canvas - scale t * width imgDim \<le> x t \<and> x t \<le> 0 \<and>
      height canvas - scale t * height imgDim \<le> y t \<and> y t \<le> 0)"

definition coverInvariant :: "Transform \<Rightarrow> Dimensions \<Rightarrow> Dimensions \<Rightarrow> bool" where
  "coverInvariant t canvas imgDim =
     (scaleCovers t canvas imgDim \<and> positionInBounds t canvas imgDim)"

definition coverScale :: "Dimensions \<Rightarrow> Dimensions \<Rightarrow> real" where
  "coverScale canvas imgDim =
     max (width canvas / width imgDim) (height canvas / height imgDim)"

section \<open>Strings and numbers of the host language\<close>

text \<open>
  \<open>String.prototype.includes\<close> and \<open>String.prototype.split\<close> with a one-character
  separator. \<open>split\<close> always returns at least one piece: \<open>"".split(":")\<close> is \<open>[""]\<close>
  and \<open>":5".split(":")\<close> is \<open>["", "5"]\<close>.
\<close>

fun includes_str :: "string \<Rightarrow> string \<Rightarrow> bool" where
  "includes_str [] sub = (sub = [])"
| "includes_str (c # cs) sub = (take (length sub) (c # cs) = sub \<or> includes_str cs sub)"

fun split_str :: "char \<Rightarrow> string \<Rightarrow> string list" where
  "split_str sep [] = [[]]"
| "split_str sep (c # cs) =
     (if c = sep then [] # split_str sep cs
      else (case split_str sep cs of
              [] \<Rightarrow> [[c]]
            | p # ps \<Rightarrow> (c # p) # ps))"

text \<open>
  A value of type \<open>number\<close> where the source tests for \<open>NaN\<close>. The sign of zero is not
  modelled, and a finite value is exact (no rounding, no overflow to \<open>Infinity\<close>).
\<close>

datatype jsnum = NaN | Finite real | PosInfinity | NegInfinity

definition isNaN :: "jsnum \<Rightarrow> bool" where
  "isNaN v = (v = NaN)"

text \<open>The operator \<open>/\<close> on numbers, by the cases of IEEE-754 division.\<close>

fun js_div :: "jsnum \<Rightarrow> jsnum \<Rightarrow> jsnum" where
  "js_div NaN _ = NaN"
| "js_div _ NaN = NaN"
| "js_div (Finite a) (Finite b) =
     (if b \<noteq> 0 then Finite (a / b)
      else if a = 0 then NaN
      else if a > 0 then PosInfinity else NegInfinity)"
| "js_div (Finite a) PosInfinity = Finite 0"
| "js_div (Finite a) NegInfinity = Finite 0"
| "js_div PosInfinity (Finite b) = (if b \<ge> 0 then PosInfinity else NegInfinity)"
| "js_div NegInfinity (Finite b) = (if b \<ge> 0 then NegInfinity else PosInfinity)"
| "js_div PosInfinity PosInfinity = NaN"
| "js_div PosInfinity NegInfinity = NaN"
| "js_div NegInfinity PosInfinity = NaN"
| "js_div NegInfinity NegInfinity = NaN"

text \<open>
  \<open>Number(s)\<close> on a string is ECMAScript's \<open>StringToNumber\<close>: white space is trimmed, the
  empty string is \<open>0\<close>, then the text is an unsigned binary, octal or hexadecimal integer
  literal (\<open>0b\<close>, \<open>0o\<close>, \<open>0x\<close>), or an optionally signed \<open>Infinity\<close> or decimal literal
  (digits, optional fraction, optional exponent); anything else is \<open>NaN\<close>. Strings are
  lists of bytes here, so only the ASCII white space characters are trimmed.
\<close>

definition isWhiteSpace :: "char \<Rightarrow> bool" where
  "isWhiteSpace c =
     (c = CHR 0x09 \<or> c = CHR 0x0A \<or> c = CHR 0x0B \<or> c = CHR 0x0C \<or> c = CHR 0x0D \<or> c = CHR 0x20)"

definition trim :: "string \<Rightarrow> string" where
  "trim s = rev (dropWhile isWhiteSpace (rev (dropWhile isWhiteSpace s)))"

fun indexOf :: "char \<Rightarrow> string \<Rightarrow> nat option" where
  "indexOf c [] = None"
| "indexOf c (d # ds) = (if c = d then Some 0 else map_option Suc (indexOf c ds))"

definition digitVal :: "char \<Rightarrow> nat option" where
  "digitVal c =
     (case indexOf c ''0123456789abcdef'' of
        Some n \<Rightarrow> Some n
      | None \<Rightarrow> map_option (\<lambda>n. n + 10) (indexOf c ''ABCDEF''))"

definition isDecimalDigit :: "char \<Rightarrow> bool" where
  "isDecimalDigit c = (indexOf c ''0123456789'' \<noteq> None)"

text \<open>The value of a non-empty run of digits of the given base; \<open>None\<close> when it is not one.\<close>

fun digitsFrom :: "nat \<Rightarrow> nat \<Rightarrow> string \<Rightarrow> nat option" where
  "digitsFrom base acc [] = Some acc"
| "digitsFrom base acc (c # cs) =
     (case digitVal c of
        None \<Rightarrow> None
      | Some d \<Rightarrow> if d < base then digitsFrom base (acc * base + d) cs else None)"

definition parseDigits :: "nat \<Rightarrow> string \<Rightarrow> nat option" where
  "parseDigits base s = (if s = [] then None else digitsFrom base 0 s)"

text \<open>An exponent part after the \<open>e\<close>: an optional sign and at least one digit.\<close>

definition parseSignedInteger :: "string \<Rightarrow> int option" where
  "parseSignedInteger s =
     (case s of
        [] \<Rightarrow> None
      | c # cs \<Rightarrow>
          if c = CHR ''+'' then map_option int (parseDigits 10 cs)
          else if c = CHR ''-'' then map_option (\<lambda>n. - int n) (parseDigits 10 cs)
          else map_option int (parseDigits 10 s))"

definition parseExponent :: "string \<Rightarrow> int option" where
  "parseExponent s =
     (case s of
        [] \<Rightarrow> Some 0
      | c # cs \<Rightarrow>
          if c = CHR ''e'' \<or> c = CHR ''E'' then parseSignedInteger cs else None)"

definition pow10 :: "int \<Rightarrow> real" where
  "pow10 e = (if e \<ge> 0 then 10 ^ nat e else 1 / 10 ^ nat (- e))"

definition digitsValue :: "string \<Rightarrow> real" where
  "digitsValue ds = (case digitsFrom 10 0 ds of Some n \<Rightarrow> real n | None \<Rightarrow> 0)"

definition parseUnsignedDecimal :: "string \<Rightarrow> real option" where
  "parseUnsignedDecimal s =
     (let intPart = takeWhile isDecimalDigit s;
          afterInt = dropWhile isDecimalDigit s;
          fracPart = (case afterInt of
                        [] \<Rightarrow> []
                      | c # cs \<Rightarrow> if c = CHR ''.'' then takeWhile isDecimalDigit cs else []);
          afterFrac = (case afterInt of
                        [] \<Rightarrow> []
                      | c # cs \<Rightarrow> if c = CHR ''.'' then dropWhile isDecimalDigit cs else afterInt)
      in if intPart = [] \<and> fracPart = [] then None
         else (case parseExponent afterFrac of
                 None \<Rightarrow> None
               | Some e \<Rightarrow>
                   Some ((digitsValue intPart + digitsValue fracPart / 10 ^ length fracPart)
                         * pow10 e)))"

definition parseStrDecimal :: "string \<Rightarrow> jsnum" where
  "parseStrDecimal s =
     (let negative = (case s of [] \<Rightarrow> False | c # cs \<Rightarrow> c = CHR ''-'');
          unsigned = (case s of
                        [] \<Rightarrow> []
                      | c # cs \<Rightarrow> if c = CHR ''+'' \<or> c = CHR ''-'' then cs else s)
      in if unsigned = ''Infinity'' then (if negative then NegInfinity else PosInfinity)
         else (case parseUnsignedDecimal unsigned of
                 None \<Rightarrow> NaN
               | Some v \<Rightarrow> Finite (if negative then - v else v)))"

definition nonDecimalBase :: "string \<Rightarrow> nat option" where
  "nonDecimalBase s =
     (case s of
        c # d # ds \<Rightarrow>
          if c \<noteq> CHR ''0'' then None
          else if d = CHR ''x'' \<or> d = CHR ''X'' then Some 16
          else if d = CHR ''o'' \<or> d = CHR ''O'' then Some 8
          else if d = CHR ''b'' \<or> d = CHR ''B'' then Some 2
          else None
      | _ \<Rightarrow> None)"

definition Number :: "string \<Rightarrow> jsnum" where
  "Number str =
     (let s = trim str in
      if s = [] then Finite 0
      else (case nonDecimalBase s of
              Some base \<Rightarrow>
                (case parseDigits base (drop 2 s) of
                   None \<Rightarrow> NaN
                 | Some n \<Rightarrow> Finite (real n))
            | None \<Rightarrow> parseStrDecimal s))"

section \<open>Aspect-ratio parsing\<close>

text \<open>
  hooks/useWatermark.ts:
  \<^verbatim>\<open>
  const parseAspectRatio = (ratioStr: string): number | null => {
      if (!ratioStr.includes(':')) return null;
      const [w, h] = ratioStr.split(':').map(Number);
      if (isNaN(w) || isNaN(h) || h === 0) return null;
      return w / h;
  };
  \<close>
  \<open>null\<close> is \<open>None\<close>. A piece that the destructuring does not find is \<open>undefined\<close>, for
  which \<open>isNaN\<close> is true.
\<close>

definition parseAspectRatio :: "string \<Rightarrow> jsnum option" where
  "parseAspectRatio ratioStr =
     (if \<not> includes_str ratioStr '':'' then None
      else (case map Number (split_str CHR '':'' ratioStr) of
              w # h # _ \<Rightarrow>
                if isNaN w \<or> isNaN h \<or> h = Finite 0 then None
                else Some (js_div w h)
            | _ \<Rightarrow> None))"

text \<open>
  components/ImageEditor.tsx has its own copy, with one more test:
  \<^verbatim>\<open>if (ratioStr === 'original' || !ratioStr.includes(':')) return null;\<close>
\<close>

definition parseAspectRatio_editor :: "string \<Rightarrow> jsnum option" where
  "parseAspectRatio_editor ratioStr =
     (if ratioStr = ''original'' \<or> \<not> includes_str ratioStr '':'' then None
      else (case map Number (split_str CHR '':'' ratioStr) of
              w # h # _ \<Rightarrow>
                if isNaN w \<or> isNaN h \<or> h = Finite 0 then None
                else Some (js_div w h)
            | _ \<Rightarrow> None))"

section \<open>Watermark placement (hooks/useWatermark)\<close>

text \<open>
  \<^verbatim>\<open>
  export enum WatermarkPosition {
      TopLeft = 'top-left', TopRight = 'top-right', BottomLeft = 'bottom-left',
      BottomRight = 'bottom-right', Center = 'center',
  }
  \<close>
  The members are strings at run time, and \<open>getPosition\<close> inspects the string.
\<close>

datatype WatermarkPosition = TopLeft | TopRight | BottomLeft | BottomRight | Center

fun positionValue :: "WatermarkPosition \<Rightarrow> string" where
  "positionValue TopLeft = ''top-left''"
| "positionValue TopRight = ''top-right''"
| "positionValue BottomLeft = ''bottom-left''"
| "positionValue BottomRight = ''bottom-right''"
| "positionValue Center = ''center''"

text \<open>
  \<^verbatim>\<open>
  const getPosition = (canvasSize, contentSize, position, isVertical = false) => {
      const margin = 20;
      if (position.includes('left')) return margin;
      if (position.includes('right')) return canvasSize - contentSize - margin;
      if (position.includes('top')) return margin;
      if (position.includes('bottom')) return canvasSize - contentSize - margin;
      return (canvasSize - contentSize) / 2; // center
  };
  \<close>
  The parameter \<open>isVertical\<close> is never read in the body.
\<close>

definition getPosition :: "real \<Rightarrow> real \<Rightarrow> WatermarkPosition \<Rightarrow> bool \<Rightarrow> real" where
  "getPosition canvasSize contentSize position isVertical =
     (let margin = 20 in
      if includes_str (positionValue position) ''left'' then margin
      else if includes_str (positionValue position) ''right'' then canvasSize - contentSize - margin
      else if includes_str (positionValue position) ''top'' then margin
      else if includes_str (positionValue position) ''bottom'' then canvasSize - contentSize - margin
      else (canvasSize - contentSize) / 2)"

text \<open>
  What the anchor asks for on one axis, following the words of the specification and not
  the code: the margin at
  the left or top edge, \<open>axisSize - contentSize - margin\<close> at the right or bottom edge, the
  middle for \<open>Center\<close>; the horizontal offset follows the horizontal component of the
  anchor and the vertical offset the vertical one.
\<close>

fun anchorOffset_spec :: "real \<Rightarrow> real \<Rightarrow> WatermarkPosition \<Rightarrow> bool \<Rightarrow> real" where
  "anchorOffset_spec axisSize contentSize Center isVertical = (axisSize - contentSize) / 2"
| "anchorOffset_spec axisSize contentSize TopLeft isVertical = 20"
| "anchorOffset_spec axisSize contentSize BottomRight isVertical = axisSize - contentSize - 20"
| "anchorOffset_spec axisSize contentSize TopRight isVertical =
     (if isVertical then 20 else axisSize - contentSize - 20)"
| "anchorOffset_spec axisSize contentSize BottomLeft isVertical =
     (if isVertical then axisSize - contentSize - 20 else 20)"

text \<open>
  \<^verbatim>\<open>
  const drawWatermarkLogo = (ctx, canvasWidth, canvasHeight) => {
      const logo = watermarkLogoRef.current;
      if (!logo) return;
      const logoAspectRatio = logo.width / logo.height;
      let logoWidth = canvasWidth * 0.15; // 15% of canvas width
      let logoHeight = logoWidth / logoAspectRatio;
      if (logoHeight > canvasHeight * 0.15) {
          logoHeight = canvasHeight * 0.15;
          logoWidth = logoHeight * logoAspectRatio;
      }
      const x = getPosition(canvasWidth, logoWidth, settings.position);
      const y = getPosition(canvasHeight, logoHeight, settings.position, true);
      ctx.drawImage(logo, x, y, logoWidth, logoHeight);
  };
  \<close>
  The result is the rectangle \<open>(x, y, logoWidth, logoHeight)\<close> handed to \<open>drawImage\<close>, or
  \<open>None\<close> when no logo is loaded and nothing is drawn.
\<close>

type_synonym Rect = "real \<times> real \<times> real \<times> real"

definition drawWatermarkLogo ::
  "Dimensions option \<Rightarrow> WatermarkPosition \<Rightarrow> real \<Rightarrow> real \<Rightarrow> Rect option" where
  "drawWatermarkLogo logoRef position canvasWidth canvasHeight =
     (case logoRef of
        None \<Rightarrow> None
      | Some logo \<Rightarrow>
          let logoAspectRatio = width logo / height logo;
              logoWidth0 = canvasWidth * (15 / 100);
              logoHeight0 = logoWidth0 / logoAspectRatio;
              capped = (logoHeight0 > canvasHeight * (15 / 100));
              logoHeight = (if capped then canvasHeight * (15 / 100) else logoHeight0);
              logoWidth = (if capped then logoHeight * logoAspectRatio else logoWidth0);
              px = getPosition canvasWidth logoWidth position False;
              py = getPosition canvasHeight logoHeight position True
          in Some (px, py, logoWidth, logoHeight))"

text \<open>
  \<open>drawWatermarkText\<close> places the text the same way; \<open>textWidth\<close> is what
  \<open>ctx.measureText\<close> returns and the height is the font size. The result is the point
  handed to \<open>fillText\<close>.
\<close>

definition drawWatermarkText ::
  "real \<Rightarrow> real \<Rightarrow> WatermarkPosition \<Rightarrow> real \<Rightarrow> real \<Rightarrow> real \<times> real" where
  "drawWatermarkText textWidth fontSize position canvasWidth canvasHeight =
     (let textHeight = fontSize;
          px = getPosition canvasWidth textWidth position False;
          py = getPosition canvasHeight textHeight position True
      in (px, py))"

section \<open>Drawing the image and extracting the crop\<close>

text \<open>
  The canvas call \<open>drawImage\<close> paints a rectangle of the source image onto a rectangle of
  the canvas. A call is the pair of the two rectangles, each \<open>(x, y, width, height)\<close>; the
  five-argument form takes the whole image as its source rectangle.
\<close>

type_synonym DrawImage = "Rect \<times> Rect"

definition drawImage5 :: "Dimensions \<Rightarrow> real \<Rightarrow> real \<Rightarrow> real \<Rightarrow> real \<Rightarrow> DrawImage" where
  "drawImage5 img dx dy dWidth dHeight =
     ((0, 0, width img, height img), (dx, dy, dWidth, dHeight))"

definition drawImage9 ::
  "real \<Rightarrow> real \<Rightarrow> real \<Rightarrow> real \<Rightarrow> real \<Rightarrow> real \<Rightarrow> real \<Rightarrow> real \<Rightarrow> DrawImage" where
  "drawImage9 sx sy sWidth sHeight dx dy dWidth dHeight =
     ((sx, sy, sWidth, sHeight), (dx, dy, dWidth, dHeight))"

text \<open>
  The point of the source image that a call paints at the canvas point \<open>(px, py)\<close>: the
  destination rectangle is mapped linearly back onto the source rectangle.
\<close>

fun sourcePoint :: "DrawImage \<Rightarrow> real \<times> real \<Rightarrow> real \<times> real" where
  "sourcePoint ((sx, sy, sWidth, sHeight), (dx, dy, dWidth, dHeight)) (px, py) =
     (sx + (px - dx) * sWidth / dWidth, sy + (py - dy) * sHeight / dHeight)"



text \<open>
  The image draw of \<open>drawImageWithWatermark\<close>:
  \<^verbatim>\<open>
  if (isPending) {
      ctx.drawImage(mainImage, transform.x, transform.y,
                    imageWidth * transform.scale, imageHeight * transform.scale);
  } else {
      ctx.drawImage(mainImage, 0, 0, canvas.width, canvas.height);
  }
  \<close>
\<close>

definition drawMainImage :: "bool \<Rightarrow> Transform \<Rightarrow> Dimensions \<Rightarrow> Dimensions \<Rightarrow> DrawImage" where
  "drawMainImage isPending t canvas mainImage =
     (if isPending
      then drawImage5 mainImage (x t) (y t) (width mainImage * scale t) (height mainImage * scale t)
      else drawImage5 mainImage 0 0 (width canvas) (height canvas))"

text \<open>
  The source rectangle of \<open>handleApplyCrop\<close> and \<open>handleRegenerate\<close>, and the draw into
  the off-screen canvas:
  \<^verbatim>\<open>
  const sx = -transform.x / transform.scale;
  const sy = -transform.y / transform.scale;
  const sWidth = canvas.width / transform.scale;
  const sHeight = canvas.height / transform.scale;
  offscreenCanvas.width = sWidth;  offscreenCanvas.height = sHeight;
  offscreenCtx.drawImage(mainImage, sx, sy, sWidth, sHeight, 0, 0, sWidth, sHeight);
  \<close>
\<close>

definition cropRect :: "Transform \<Rightarrow> Dimensions \<Rightarrow> Rect" where
  "cropRect t canvas =
     (let sx = - x t / scale t;
          sy = - y t / scale t;
          sWidth = width canvas / scale t;
          sHeight = height canvas / scale t
      in (sx, sy, sWidth, sHeight))"

definition drawCrop :: "Transform \<Rightarrow> Dimensions \<Rightarrow> DrawImage" where
  "drawCrop t canvas =
     (case cropRect t canvas of
        (sx, sy, sWidth, sHeight) \<Rightarrow> drawImage9 sx sy sWidth sHeight 0 0 sWidth sHeight)"

text \<open>
  The off-screen canvas of the two handlers: its size and the draw made on it. The
  \<open>width\<close> and \<open>height\<close> of a canvas element are unsigned 32-bit integers, so assigning
  \<open>sWidth\<close> and \<open>sHeight\<close> truncates them towards zero (modulo \<open>2^32\<close>; the properties
  below use this for sizes below \<open>2^31\<close> only).
\<close>

definition toUint32 :: "real \<Rightarrow> int" where
  "toUint32 v = (if 0 \<le> v then \<lfloor>v\<rfloor> else \<lceil>v\<rceil>) mod 2 ^ 32"

definition offscreenCrop :: "Transform \<Rightarrow> Dimensions \<Rightarrow> Dimensions \<times> DrawImage" where
  "offscreenCrop t canvas =
     (case cropRect t canvas of
        (sx, sy, sWidth, sHeight) \<Rightarrow>
          (\<lparr>width = of_int (toUint32 sWidth), height = of_int (toUint32 sHeight)\<rparr>,
           drawCrop t canvas))"





section \<open>The generation service (services/geminiService)\<close>

text \<open>
  The remote call \<open>ai.models.generateContent\<close> is outside the program: it either throws
  or returns a response. A thrown value is an \<open>Error\<close> with its message, or something that
  is not an \<open>Error\<close>. Of the response the code reads
  \<open>response.candidates?.[0]?.content?.parts || []\<close> and, of each part, \<open>inlineData\<close>
  and its \<open>data\<close>; a part may have no \<open>inlineData\<close>, and an \<open>inlineData\<close> may have no
  \<open>data\<close> (\<open>undefined\<close>) or the empty string.
\<close>

datatype Thrown = ErrorWith string | NotAnError

record InlineData =
  data :: "string option"

record Part =
  inlineData :: "InlineData option"

record Candidate =
  parts :: "Part list option"

record Response =
  candidates :: "Candidate list option"

datatype Outcome = Throws Thrown | Returns Response

definition responseParts :: "Response \<Rightarrow> Part list" where
  "responseParts response =
     (case candidates response of
        None \<Rightarrow> []
      | Some [] \<Rightarrow> []
      | Some (c # _) \<Rightarrow> (case parts c of None \<Rightarrow> [] | Some ps \<Rightarrow> ps))"

text \<open>
  \<^verbatim>\<open>
  for (const part of response.candidates?.[0]?.content?.parts || []) {
      if (part.inlineData) { return part.inlineData.data; }
  }
  \<close>
\<close>

fun firstInlineData :: "Part list \<Rightarrow> InlineData option" where
  "firstInlineData [] = None"
| "firstInlineData (p # ps) =
     (case inlineData p of Some d \<Rightarrow> Some d | None \<Rightarrow> firstInlineData ps)"

definition regeneratePrompt :: "string \<Rightarrow> string" where
  "regeneratePrompt aspectRatioLabel =
     ''This image needs to be adjusted to a '' @ aspectRatioLabel @
     '' aspect ratio. Please intelligently extend the image to fit these new dimensions. The generated areas should seamlessly blend with the original image in terms of style, lighting, and content. Do not crop the original image; instead, add new visual information to the sides or top/bottom as needed.''"

text \<open>
  \<^verbatim>\<open>
  export const regenerateImageToAspectRatio = async (base64Image, mimeType, aspectRatioLabel) => {
      try {
          const imagePart = fileToGenerativePart(base64Image, mimeType);
          const prompt = `This image needs to be adjusted to a ${aspectRatioLabel} ...`;
          const response = await ai.models.generateContent({ ... });
          for (const part of ...) { if (part.inlineData) return part.inlineData.data; }
          throw new Error("No image data found in the response from regeneration.");
      } catch (error) {
          if (error instanceof Error) {
             throw new Error(`Failed to regenerate image: ${error.message}`);
          }
          throw new Error("An unknown error occurred while regenerating the image.");
      }
  };
  \<close>
  The result is \<open>Inr\<close> the value of \<open>part.inlineData.data\<close> (\<open>None\<close> when it is
  \<open>undefined\<close>), or \<open>Inl\<close> the message of the \<open>Error\<close> it throws. The first argument is
  the remote call, applied to the image data, the MIME type and the prompt.
  \<open>base64Image\<close> is \<open>None\<close> when the caller passes \<open>undefined\<close>.
\<close>

definition regenerateImageToAspectRatio ::
  "(string option \<Rightarrow> string \<Rightarrow> string \<Rightarrow> Outcome) \<Rightarrow> string option \<Rightarrow> string \<Rightarrow> string
     \<Rightarrow> string + string option" where
  "regenerateImageToAspectRatio generateContent base64Image mimeType' aspectRatioLabel =
     (let prompt = regeneratePrompt aspectRatioLabel;
          tried = (case generateContent base64Image mimeType' prompt of
                     Throws e \<Rightarrow> Inl e
                   | Returns response \<Rightarrow>
                       (case firstInlineData (responseParts response) of
                          Some d \<Rightarrow> Inr (data d)
                        | None \<Rightarrow>
                            Inl (ErrorWith
                              ''No image data found in the response from regeneration.'')))
      in case tried of
           Inr d \<Rightarrow> Inr d
         | Inl (ErrorWith m) \<Rightarrow> Inl (''Failed to regenerate image: '' @ m)
         | Inl NotAnError \<Rightarrow> Inl ''An unknown error occurred while regenerating the image.'')"

section \<open>Editor state (components/ImageEditor)\<close>

text \<open>
  The \<open>useState\<close> cells of the component that the crop and regenerate handlers read or
  write, and \<open>canvasRef.current\<close>. \<open>null\<close> is \<open>None\<close>. \<open>base64\<close> is \<open>None\<close> when it was
  assigned \<open>undefined\<close>, which \<open>dataUrl.split(',')[1]\<close> is for a string without a comma.
\<close>

record OriginalImage =
  base64 :: "string option"
  mimeType :: string

datatype Operation = Edit | Remove | Variation | Regenerate

record EditorState =
  originalImage :: "OriginalImage option"
  displayImage :: "string option"
  imageDimensions :: "Dimensions option"
  activeOperation :: "Operation option"
  error :: "string option"
  aspectRatio :: string
  pendingAspectRatio :: "string option"
  transform :: Transform
  canvasRef :: "Dimensions option"

text \<open>
  The platform, as far as the two handlers depend on it: whether the display image
  decodes (its \<open>onload\<close> fires), whether the off-screen canvas gives a 2D context, the data
  URL that the off-screen canvas yields after the crop was drawn (from the image source,
  the size of that canvas with the draw made on it, and the MIME type), and the remote
  generation call.
\<close>

record Env =
  imageLoads :: bool
  getContext2d :: bool
  toDataURL :: "string \<Rightarrow> Dimensions \<times> DrawImage \<Rightarrow> string \<Rightarrow> string"
  generateContent :: "string option \<Rightarrow> string \<Rightarrow> string \<Rightarrow> Outcome"

text \<open>Truthiness of a \<open>string | null\<close>: \<open>null\<close> and the empty string are falsy.\<close>

definition truthy :: "string option \<Rightarrow> bool" where
  "truthy v = (case v of None \<Rightarrow> False | Some s \<Rightarrow> s \<noteq> [])"

text \<open>\<open>s.split(',')[1]\<close>, \<open>undefined\<close> (\<open>None\<close>) when there is no second piece.\<close>

definition secondPiece :: "string \<Rightarrow> string option" where
  "secondPiece s = (case split_str CHR '','' s of _ # p # _ \<Rightarrow> Some p | _ \<Rightarrow> None)"

text \<open>\<open>originalImage?.mimeType || 'image/png'\<close>\<close>

definition cropMime :: "OriginalImage option \<Rightarrow> string" where
  "cropMime original =
     (case original of
        None \<Rightarrow> ''image/png''
      | Some orig \<Rightarrow> if mimeType orig = [] then ''image/png'' else mimeType orig)"

text \<open>A value interpolated into a template literal; \<open>undefined\<close> prints as \<open>undefined\<close>.\<close>

definition interpolate :: "string option \<Rightarrow> string" where
  "interpolate v = (case v of None \<Rightarrow> ''undefined'' | Some str \<Rightarrow> str)"

text \<open>
  \<^verbatim>\<open>
  const handleApplyCrop = () => {
      const canvas = canvasRef.current;
      if (!displayImage || !imageDimensions || !pendingAspectRatio || !canvas) return;
      const mainImage = new Image();
      mainImage.src = displayImage;
      mainImage.onload = () => {
          const sx = ...; const sy = ...; const sWidth = ...; const sHeight = ...;
          const offscreenCanvas = document.createElement('canvas');
          offscreenCanvas.width = sWidth;  offscreenCanvas.height = sHeight;
          const offscreenCtx = offscreenCanvas.getContext('2d');
          if (!offscreenCtx) return;
          offscreenCtx.drawImage(mainImage, sx, sy, sWidth, sHeight, 0, 0, sWidth, sHeight);
          const croppedDataUrl = offscreenCanvas.toDataURL(originalImage?.mimeType || 'image/png');
          const newBase64 = croppedDataUrl.split(',')[1];
          setDisplayImage(croppedDataUrl);
          setOriginalImage(prev => prev ? { ...prev, base64: newBase64 } : null);
          setAspectRatio(pendingAspectRatio);
          setPendingAspectRatio(null);
      };
  };
  \<close>
  The result is the state once the handler and its \<open>onload\<close> callback have run; when the
  image does not decode the callback never runs. There is no test of \<open>transform.scale\<close>
  and no call of \<open>setError\<close>.
\<close>

definition handleApplyCrop :: "Env \<Rightarrow> EditorState \<Rightarrow> EditorState" where
  "handleApplyCrop env s =
     (case (displayImage s, imageDimensions s, pendingAspectRatio s, canvasRef s) of
        (Some display, Some dims, Some pending, Some canvas) \<Rightarrow>
          if display = [] \<or> pending = [] then s
          else if \<not> imageLoads env then s
          else if \<not> getContext2d env then s
          else
            let mime = cropMime (originalImage s);
                croppedDataUrl = toDataURL env display (offscreenCrop (transform s) canvas) mime;
                newBase64 = secondPiece croppedDataUrl
            in s\<lparr>displayImage := Some croppedDataUrl,
                 originalImage := map_option (\<lambda>prev. prev\<lparr>base64 := newBase64\<rparr>) (originalImage s),
                 aspectRatio := pending,
                 pendingAspectRatio := None\<rparr>
      | _ \<Rightarrow> s)"

text \<open>
  \<^verbatim>\<open>
  const handleRegenerate = async () => {
      if (!originalImage || !pendingAspectRatio) return;
      setActiveOperation('regenerate');
      setError(null);
      try {
          const canvas = canvasRef.current;
          if (!displayImage || !imageDimensions || !pendingAspectRatio || !canvas)
              throw new Error("Canvas or image not ready.");
          const mainImage = new Image();
          mainImage.src = displayImage;
          await new Promise(resolve => mainImage.onload = resolve);
          const sx = ...; const sy = ...; const sWidth = ...; const sHeight = ...;
          const offscreenCanvas = document.createElement('canvas');
          offscreenCanvas.width = sWidth;  offscreenCanvas.height = sHeight;
          const offscreenCtx = offscreenCanvas.getContext('2d');
          if (!offscreenCtx) throw new Error("Could not create offscreen context.");
          offscreenCtx.drawImage(mainImage, sx, sy, sWidth, sHeight, 0, 0, sWidth, sHeight);
          const croppedDataUrl = offscreenCanvas.toDataURL(originalImage.mimeType);
          const croppedBase64 = croppedDataUrl.split(',')[1];
          const newBase64 = await regenerateImageToAspectRatio(croppedBase64,
              originalImage.mimeType, pendingAspectRatio);
          const newDataUrl = `data:${originalImage.mimeType};base64,${newBase64}`;
          setDisplayImage(newDataUrl);
          setOriginalImage(prev => prev ? { ...prev, base64: newBase64 } : null);
          setAspectRatio(pendingAspectRatio);
      } catch (err) {
          setError(err instanceof Error ? err.message
                                        : 'An unknown error occurred during regeneration.');
      } finally {
          setActiveOperation(null);
          setPendingAspectRatio(null);
      }
  };
  \<close>
  \<open>tryRegenerate\<close> is the body of the \<open>try\<close>: \<open>Some (Inr newBase64)\<close> when it completes,
  \<open>Some (Inl message)\<close> when it throws an \<open>Error\<close> (everything thrown there is an \<open>Error\<close>),
  and \<open>None\<close> when the awaited \<open>onload\<close> never fires, so that the handler never resumes.
\<close>

definition tryRegenerate ::
  "Env \<Rightarrow> EditorState \<Rightarrow> OriginalImage \<Rightarrow> string \<Rightarrow> (string + string option) option" where
  "tryRegenerate env s orig pending =
     (case (displayImage s, imageDimensions s, canvasRef s) of
        (Some display, Some dims, Some canvas) \<Rightarrow>
          if display = [] \<or> pending = [] then Some (Inl ''Canvas or image not ready.'')
          else if \<not> imageLoads env then None
          else if \<not> getContext2d env then Some (Inl ''Could not create offscreen context.'')
          else
            let croppedDataUrl =
                  toDataURL env display (offscreenCrop (transform s) canvas) (mimeType orig);
                croppedBase64 = secondPiece croppedDataUrl
            in Some (regenerateImageToAspectRatio (generateContent env)
                       croppedBase64 (mimeType orig) pending)
      | _ \<Rightarrow> Some (Inl ''Canvas or image not ready.''))"

definition handleRegenerate :: "Env \<Rightarrow> EditorState \<Rightarrow> EditorState option" where
  "handleRegenerate env s =
     (case (originalImage s, pendingAspectRatio s) of
        (Some orig, Some pending) \<Rightarrow>
          if pending = [] then Some s
          else
            let s1 = s\<lparr>activeOperation := Some Regenerate, error := None\<rparr>
            in (case tryRegenerate env s orig pending of
                  None \<Rightarrow> None
                | Some (Inr newBase64) \<Rightarrow>
                    Some (s1\<lparr>displayImage :=
                                Some (''data:'' @ mimeType orig @ '';base64,''
                                      @ interpolate newBase64),
                              originalImage :=
                                map_option (\<lambda>prev. prev\<lparr>base64 := newBase64\<rparr>)
                                  (originalImage s1),
                              aspectRatio := pending,
                              activeOperation := None,
                              pendingAspectRatio := None\<rparr>)
                | Some (Inl message) \<Rightarrow>
                    Some (s1\<lparr>error := Some message,
                              activeOperation := None,
                              pendingAspectRatio := None\<rparr>))
      | _ \<Rightarrow> Some s)"

text \<open>
  \<^verbatim>\<open>
  const handleSelectAspectRatio = (ratio: string) => {
      if (ratio === aspectRatio) {
           setPendingAspectRatio(null);
      } else {
          setPendingAspectRatio(ratio);
          // Calculate initial "cover" transform
          if (canvasRef.current && imageDimensions) {
              const canvas = canvasRef.current;
              ...
              setTransform({ scale, x: ..., y: ... });
          }
      }
  };
  \<close>
  The transform is seeded by \<open>coverTransform\<close>, from the size the canvas has when the
  ratio is selected.
\<close>

definition handleSelectAspectRatio :: "string \<Rightarrow> EditorState \<Rightarrow> EditorState" where
  "handleSelectAspectRatio ratio s =
     (if ratio = aspectRatio s then s\<lparr>pendingAspectRatio := None\<rparr>
      else
        (case (canvasRef s, imageDimensions s) of
           (Some canvas, Some dims) \<Rightarrow>
             s\<lparr>pendingAspectRatio := Some ratio, transform := coverTransform canvas dims\<rparr>
         | _ \<Rightarrow> s\<lparr>pendingAspectRatio := Some ratio\<rparr>))"

section \<open>Example platform and states\<close>

text \<open>
  A platform whose off-screen canvas yields a fixed PNG data URL and whose generation call
  throws an \<open>Error\<close>, and an editor state with a loaded 100 by 100 image, a 200 by 200
  canvas, the transform of scale 2 at the origin and a pending selection of the ratio 1:1; then that state with a negative scale,
  and that state before the image dimensions are known.
\<close>

definition exampleToDataURL :: "string \<Rightarrow> Dimensions \<times> DrawImage \<Rightarrow> string \<Rightarrow> string" where
  "exampleToDataURL src offscreen mime = ''data:image/png;base64,QUJD''"

definition quotaExceeded :: "string option \<Rightarrow> string \<Rightarrow> string \<Rightarrow> Outcome" where
  "quotaExceeded b mime prompt = Throws (ErrorWith ''quota exceeded'')"

definition exampleEnv :: Env where
  "exampleEnv =
     \<lparr>imageLoads = True, getContext2d = True,
      toDataURL = exampleToDataURL, generateContent = quotaExceeded\<rparr>"

text \<open>
  The same platform with a generation call that returns a response whose only part has an
  \<open>inlineData\<close> with the empty string as its \<open>data\<close>.
\<close>

definition emptyData :: "string option \<Rightarrow> string \<Rightarrow> string \<Rightarrow> Outcome" where
  "emptyData b mime prompt =
     Returns \<lparr>candidates = Some [\<lparr>parts = Some [\<lparr>inlineData = Some \<lparr>data = Some []\<rparr>\<rparr>]\<rparr>]\<rparr>"

definition emptyDataEnv :: Env where
  "emptyDataEnv = exampleEnv\<lparr>generateContent := emptyData\<rparr>"

definition exampleState :: EditorState where
  "exampleState =
     \<lparr>originalImage = Some \<lparr>base64 = Some ''AAAA'', mimeType = ''image/png''\<rparr>,
      displayImage = Some ''data:image/png;base64,AAAA'',
      imageDimensions = Some \<lparr>width = 100, height = 100\<rparr>,
      activeOperation = None,
      error = None,
      aspectRatio = ''original'',
      pendingAspectRatio = Some ''1:1'',
      transform = \<lparr>scale = 2, x = 0, y = 0\<rparr>,
      canvasRef = Some \<lparr>width = 200, height = 200\<rparr>\<rparr>"

definition negativeScaleState :: EditorState where
  "negativeScaleState = exampleState\<lparr>transform := \<lparr>scale = - 1, x = 0, y = 0\<rparr>\<rparr>"

definition notLoadedState :: EditorState where
  "notLoadedState = exampleState\<lparr>imageDimensions := None\<rparr>"

section \<open>Properties of the controller\<close>

lemma clampPosition_scale: "scale (clampPosition t canvas imgDim) = scale t"
  by (simp add: clampPosition_def Let_def)

lemma clampPosition_bounds:
  assumes "scaleCovers t canvas imgDim"
  shows "positionInBounds (clampPosition t canvas imgDim) canvas imgDim"
  using assms
  by (simp add: scaleCovers_def positionInBounds_def clampPosition_def Let_def
      min_def max_def mult.commute)

lemma scaleCovers_coverScale:
  assumes "0 < width imgDim" and "0 < height imgDim"
  shows "scaleCovers t canvas imgDim \<longleftrightarrow> coverScale canvas imgDim \<le> scale t"
  using assms by (simp add: scaleCovers_def coverScale_def pos_divide_le_eq)

lemma wheelCandidate_bounds:
  assumes "scaleCovers (wheelCandidate dY ox oy canvas img prev) canvas img"
  shows "positionInBounds (wheelCandidate dY ox oy canvas img prev) canvas img"
proof -
  obtain new where c: "wheelCandidate dY ox oy canvas img prev = clampPosition new canvas img"
    by (simp add: wheelCandidate_def Let_def)
  from assms c have "scaleCovers new canvas img"
    by (simp add: scaleCovers_def clampPosition_scale)
  then show ?thesis
    unfolding c by (rule clampPosition_bounds)
qed

lemma handleWheel_rejected:
  assumes "\<not> scaleCovers (wheelCandidate dY ox oy canvas img prev) canvas img"
  shows "handleWheel dY ox oy canvas img prev = prev"
  using assms by (auto simp: handleWheel_def Let_def scaleCovers_def)

lemma handleWheel_accepted:
  assumes "scaleCovers (wheelCandidate dY ox oy canvas img prev) canvas img"
  shows "handleWheel dY ox oy canvas img prev = wheelCandidate dY ox oy canvas img prev"
  using assms by (auto simp: handleWheel_def Let_def scaleCovers_def)

text \<open>
  C1, as stated: every transform that a drag or a wheel zoom produces from a previous
  transform satisfies the cover invariant. It fails for a drag from the initial value
  \<open>{scale: 1, x: 0, y: 0}\<close> of the transform state, with a 100 by 100 image in a 200 by
  200 canvas: the result still has scale 1, and the scaled image is 100 wide.
\<close>

theorem cover_invariant_counterexample:
  "\<not> coverInvariant
       (dragUpdate 10 10 \<lparr>width = 200, height = 200\<rparr> \<lparr>width = 100, height = 100\<rparr>
          \<lparr>scale = 1, x = 0, y = 0\<rparr>)
       \<lparr>width = 200, height = 200\<rparr> \<lparr>width = 100, height = 100\<rparr>"
  by (simp add: coverInvariant_def scaleCovers_def dragUpdate_def clampPosition_def Let_def)

text \<open>
  C1, amended: for fixed canvas and image sizes, the transform produced by a drag
  satisfies the cover invariant whenever the scale of the previous transform covers the
  canvas, whatever its position. The transform produced by a wheel zoom (from a previous
  scale other than zero) satisfies the cover invariant whenever the zoom is accepted, that
  is whenever the candidate covers the canvas, and in particular whenever the result is
  not the previous transform; this needs nothing of the previous transform. A rejected
  zoom returns the previous transform, so in general the result of a wheel zoom satisfies
  the cover invariant when the previous transform does.
\<close>

theorem cover_invariant_preserved:
  "(scaleCovers prev canvas img
      \<longrightarrow> coverInvariant (dragUpdate dx dy canvas img prev) canvas img)
   \<and> (scale prev \<noteq> 0 \<and> scaleCovers (wheelCandidate dY ox oy canvas img prev) canvas img
      \<longrightarrow> coverInvariant (handleWheel dY ox oy canvas img prev) canvas img)
   \<and> (scale prev \<noteq> 0 \<and> handleWheel dY ox oy canvas img prev \<noteq> prev
      \<longrightarrow> coverInvariant (handleWheel dY ox oy canvas img prev) canvas img)
   \<and> (scale prev \<noteq> 0 \<and> coverInvariant prev canvas img
      \<longrightarrow> coverInvariant (handleWheel dY ox oy canvas img prev) canvas img)"
proof -
  let ?new = "prev\<lparr>x := x prev + dx, y := y prev + dy\<rparr>"
  let ?c = "wheelCandidate dY ox oy canvas img prev"
  let ?r = "handleWheel dY ox oy canvas img prev"
  have drag: "coverInvariant (dragUpdate dx dy canvas img prev) canvas img"
    if sc: "scaleCovers prev canvas img"
  proof -
    have "scaleCovers ?new canvas img"
      using sc by (simp add: scaleCovers_def)
    then have "positionInBounds (clampPosition ?new canvas img) canvas img"
      by (rule clampPosition_bounds)
    moreover have "scaleCovers (clampPosition ?new canvas img) canvas img"
      using sc by (simp add: scaleCovers_def clampPosition_scale)
    ultimately show ?thesis
      by (simp add: coverInvariant_def dragUpdate_def Let_def)
  qed
  have accepted: "coverInvariant ?r canvas img" if "scaleCovers ?c canvas img"
    using that by (simp add: handleWheel_accepted coverInvariant_def wheelCandidate_bounds)
  have changed: "coverInvariant ?r canvas img" if "?r \<noteq> prev"
  proof -
    from that have "scaleCovers ?c canvas img"
      using handleWheel_rejected [of dY ox oy canvas img prev] by blast
    then show ?thesis by (rule accepted)
  qed
  have kept: "coverInvariant ?r canvas img" if "coverInvariant prev canvas img"
  proof (cases "scaleCovers ?c canvas img")
    case True
    then show ?thesis by (rule accepted)
  next
    case False
    then show ?thesis by (simp add: handleWheel_rejected that)
  qed
  from drag accepted changed kept show ?thesis by blast
qed

theorem cover_invariant_preserved_witness:
  "scaleCovers \<lparr>scale = 6, x = 50, y = - 700\<rparr>
       \<lparr>width = 600, height = 600\<rparr> \<lparr>width = 200, height = 200\<rparr>
   \<and> \<not> positionInBounds \<lparr>scale = 6, x = 50, y = - 700\<rparr>
       \<lparr>width = 600, height = 600\<rparr> \<lparr>width = 200, height = 200\<rparr>
   \<and> dragUpdate 10 20 \<lparr>width = 600, height = 600\<rparr> \<lparr>width = 200, height = 200\<rparr>
         \<lparr>scale = 6, x = 50, y = - 700\<rparr>
       = \<lparr>scale = 6, x = 0, y = - 600\<rparr>
   \<and> coverInvariant
       (dragUpdate 10 20 \<lparr>width = 600, height = 600\<rparr> \<lparr>width = 200, height = 200\<rparr>
          \<lparr>scale = 6, x = 50, y = - 700\<rparr>)
       \<lparr>width = 600, height = 600\<rparr> \<lparr>width = 200, height = 200\<rparr>
   \<and> scale \<lparr>scale = 6, x = 50, y = - 700\<rparr> \<noteq> 0
   \<and> handleWheel (- 100) 300 300 \<lparr>width = 600, height = 600\<rparr> \<lparr>width = 200, height = 200\<rparr>
         \<lparr>scale = 6, x = 50, y = - 700\<rparr>
       \<noteq> \<lparr>scale = 6, x = 50, y = - 700\<rparr>
   \<and> coverInvariant
       (handleWheel (- 100) 300 300 \<lparr>width = 600, height = 600\<rparr> \<lparr>width = 200, height = 200\<rparr>
          \<lparr>scale = 6, x = 50, y = - 700\<rparr>)
       \<lparr>width = 600, height = 600\<rparr> \<lparr>width = 200, height = 200\<rparr>
   \<and> coverInvariant \<lparr>scale = 3, x = 0, y = 0\<rparr>
       \<lparr>width = 600, height = 600\<rparr> \<lparr>width = 200, height = 200\<rparr>
   \<and> handleWheel 100 300 300 \<lparr>width = 600, height = 600\<rparr> \<lparr>width = 200, height = 200\<rparr>
         \<lparr>scale = 3, x = 0, y = 0\<rparr>
       = \<lparr>scale = 3, x = 0, y = 0\<rparr>
   \<and> coverInvariant
       (handleWheel 100 300 300 \<lparr>width = 600, height = 600\<rparr> \<lparr>width = 200, height = 200\<rparr>
          \<lparr>scale = 3, x = 0, y = 0\<rparr>)
       \<lparr>width = 600, height = 600\<rparr> \<lparr>width = 200, height = 200\<rparr>"
proof -
  let ?cv = "\<lparr>width = 600, height = 600\<rparr>"
  let ?im = "\<lparr>width = 200, height = 200\<rparr>"
  let ?p = "\<lparr>scale = 6, x = 50, y = - 700\<rparr>"
  let ?q = "\<lparr>scale = 3, x = 0, y = 0\<rparr>"
  have a: "scaleCovers ?p ?cv ?im" "\<not> positionInBounds ?p ?cv ?im"
    by (simp_all add: scaleCovers_def positionInBounds_def)
  have b: "dragUpdate 10 20 ?cv ?im ?p = \<lparr>scale = 6, x = 0, y = - 600\<rparr>"
    by (simp add: dragUpdate_def clampPosition_def Let_def)
  have c: "handleWheel (- 100) 300 300 ?cv ?im ?p \<noteq> ?p"
    by (simp add: handleWheel_def wheelCandidate_def clampPosition_def Let_def)
  have d: "coverInvariant ?q ?cv ?im"
    by (simp add: coverInvariant_def scaleCovers_def positionInBounds_def)
  have e: "handleWheel 100 300 300 ?cv ?im ?q = ?q"
    by (simp add: handleWheel_def wheelCandidate_def clampPosition_def Let_def)
  show ?thesis
    using a b c d e
      cover_invariant_preserved [of ?p ?cv ?im 10 20 "- 100" 300 300]
      cover_invariant_preserved [of ?q ?cv ?im 10 20 100 300 300]
    by simp
qed




subsection \<open>Rounding to double precision\<close>






















subsection \<open>The seeded transform\<close>






text \<open>Without rounding the seed always covers, and clamping returns it unchanged.\<close>

lemma seed_clamp_noop_exact:
  assumes "0 < width canvas" and "0 < height canvas"
    and "0 < width img" and "0 < height img"
  shows "scale (coverTransformExact canvas img) = coverScale canvas img
       \<and> clampPosition (coverTransformExact canvas img) canvas img
           = coverTransformExact canvas img"
proof -
  let ?s = "scale (coverTransformExact canvas img)"
  have ratio: "width canvas / height canvas > width img / height img
      \<longleftrightarrow> width canvas / width img > height canvas / height img"
    using assms by (simp add: field_simps)
  have s: "?s = coverScale canvas img"
    using ratio by (auto simp: coverTransformExact_def coverScale_def Let_def max_def)
  have cov: "scaleCovers (coverTransformExact canvas img) canvas img"
    using scaleCovers_coverScale [OF assms(3,4), of "coverTransformExact canvas img" canvas] s
    by simp
  then have w: "width canvas \<le> ?s * width img" and h: "height canvas \<le> ?s * height img"
    by (simp_all add: scaleCovers_def)
  have xs: "x (coverTransformExact canvas img) = (width canvas - ?s * width img) / 2"
    and ys: "y (coverTransformExact canvas img) = (height canvas - ?s * height img) / 2"
    by (simp_all add: coverTransformExact_def Let_def mult.commute)
  have "clampPosition (coverTransformExact canvas img) canvas img
      = coverTransformExact canvas img"
    using w h xs ys
    by (simp add: clampPosition_def Let_def min_def max_def mult.commute)
  with s show ?thesis by simp
qed

text \<open>
  C9: \<open>clampPosition\<close> never changes the scale; when the scaled image is strictly narrower
  than the canvas it returns 0 for \<open>x\<close> whatever the input position, and when it is
  strictly lower it returns 0 for \<open>y\<close>; so a transform whose scale does not cover the
  canvas (whose scale is below \<open>coverScale\<close>, for an image with positive dimensions) does
  not satisfy the cover invariant after clamping either.
\<close>

theorem clampPosition_below_cover:
  "scale (clampPosition t canvas img) = scale t
   \<and> (scale t * width img < width canvas \<longrightarrow> x (clampPosition t canvas img) = 0)
   \<and> (scale t * height img < height canvas \<longrightarrow> y (clampPosition t canvas img) = 0)
   \<and> (\<not> scaleCovers t canvas img \<longrightarrow> \<not> coverInvariant (clampPosition t canvas img) canvas img)
   \<and> (0 < width img \<and> 0 < height img \<and> scale t < coverScale canvas img
        \<longrightarrow> \<not> coverInvariant (clampPosition t canvas img) canvas img)"
proof -
  have a: "scale (clampPosition t canvas img) = scale t"
    by (rule clampPosition_scale)
  have b: "scale t * width img < width canvas \<longrightarrow> x (clampPosition t canvas img) = 0"
    by (simp add: clampPosition_def Let_def mult.commute)
  have c: "scale t * height img < height canvas \<longrightarrow> y (clampPosition t canvas img) = 0"
    by (simp add: clampPosition_def Let_def mult.commute)
  have d: "\<not> scaleCovers t canvas img \<longrightarrow> \<not> coverInvariant (clampPosition t canvas img) canvas img"
    by (auto simp: coverInvariant_def scaleCovers_def clampPosition_scale)
  have e: "0 < width img \<and> 0 < height img \<and> scale t < coverScale canvas img
      \<longrightarrow> \<not> coverInvariant (clampPosition t canvas img) canvas img"
    using d scaleCovers_coverScale [of img t canvas] by auto
  from a b c d e show ?thesis by blast
qed

theorem clampPosition_below_cover_witness:
  "scale \<lparr>scale = 1, x = - 35, y = 12\<rparr> * width \<lparr>width = 100, height = 150\<rparr>
       < width \<lparr>width = 200, height = 300\<rparr>
   \<and> scale \<lparr>scale = 1, x = - 35, y = 12\<rparr> * height \<lparr>width = 100, height = 150\<rparr>
       < height \<lparr>width = 200, height = 300\<rparr>
   \<and> \<not> scaleCovers \<lparr>scale = 1, x = - 35, y = 12\<rparr>
         \<lparr>width = 200, height = 300\<rparr> \<lparr>width = 100, height = 150\<rparr>
   \<and> scale \<lparr>scale = 1, x = - 35, y = 12\<rparr>
       < coverScale \<lparr>width = 200, height = 300\<rparr> \<lparr>width = 100, height = 150\<rparr>
   \<and> clampPosition \<lparr>scale = 1, x = - 35, y = 12\<rparr>
         \<lparr>width = 200, height = 300\<rparr> \<lparr>width = 100, height = 150\<rparr>
       = \<lparr>scale = 1, x = 0, y = 0\<rparr>
   \<and> \<not> coverInvariant
         (clampPosition \<lparr>scale = 1, x = - 35, y = 12\<rparr>
            \<lparr>width = 200, height = 300\<rparr> \<lparr>width = 100, height = 150\<rparr>)
         \<lparr>width = 200, height = 300\<rparr> \<lparr>width = 100, height = 150\<rparr>"
proof -
  have n: "\<not> scaleCovers \<lparr>scale = 1, x = - 35, y = 12\<rparr>
      \<lparr>width = 200, height = 300\<rparr> \<lparr>width = 100, height = 150\<rparr>"
    by (simp add: scaleCovers_def)
  have e: "clampPosition \<lparr>scale = 1, x = - 35, y = 12\<rparr>
      \<lparr>width = 200, height = 300\<rparr> \<lparr>width = 100, height = 150\<rparr> = \<lparr>scale = 1, x = 0, y = 0\<rparr>"
    using clampPosition_below_cover [of "\<lparr>scale = 1, x = - 35, y = 12\<rparr>"
        "\<lparr>width = 200, height = 300\<rparr>" "\<lparr>width = 100, height = 150\<rparr>"]
    by (simp add: clampPosition_def Let_def)
  have k: "scale \<lparr>scale = 1, x = - 35, y = 12\<rparr>
      < coverScale \<lparr>width = 200, height = 300\<rparr> \<lparr>width = 100, height = 150\<rparr>"
    by (simp add: coverScale_def)
  show ?thesis
    using n e k clampPosition_below_cover [of "\<lparr>scale = 1, x = - 35, y = 12\<rparr>"
        "\<lparr>width = 200, height = 300\<rparr>" "\<lparr>width = 100, height = 150\<rparr>"]
    by simp
qed

lemma handleMouseMove_dragging:
  assumes "isDragging r"
  shows "snd (handleMouseMove e canvas img (r, prev))
       = dragUpdate (fst e - fst (lastMousePosition r)) (snd e - snd (lastMousePosition r))
           canvas img prev"
  using assms by (simp add: handleMouseMove_def Let_def)

lemma handleMouseMove_idle:
  assumes "\<not> isDragging r"
  shows "handleMouseMove e canvas img (r, prev) = (r, prev)"
  using assms by (simp add: handleMouseMove_def Let_def)

section \<open>Properties of the aspect-ratio parser\<close>

text \<open>
  C10: there are strings of the form \<open>"W:H"\<close> whose two sides convert to numbers and whose
  denominator is not zero for which \<open>parseAspectRatio\<close> returns the number 0 and not
  \<open>null\<close>: \<open>"0:5"\<close> and \<open>":5"\<close> (the empty string converts to 0). Both copies of the
  function do so.
\<close>

theorem parseAspectRatio_zero:
  "parseAspectRatio ''0:5'' = Some (Finite 0)
   \<and> parseAspectRatio '':5'' = Some (Finite 0)
   \<and> parseAspectRatio_editor ''0:5'' = Some (Finite 0)
   \<and> parseAspectRatio_editor '':5'' = Some (Finite 0)"
  by (simp add: parseAspectRatio_def parseAspectRatio_editor_def Number_def trim_def
      isWhiteSpace_def nonDecimalBase_def parseStrDecimal_def parseUnsignedDecimal_def
      isDecimalDigit_def parseExponent_def digitsValue_def digitVal_def pow10_def isNaN_def)

section \<open>Properties of the watermark placement\<close>

lemma getPosition_horizontal:
  "getPosition axisSize contentSize position False = anchorOffset_spec axisSize contentSize position False"
  by (cases position) (simp_all add: getPosition_def)

lemma getPosition_vertical_agrees:
  assumes "position = TopLeft \<or> position = BottomRight \<or> position = Center"
  shows "getPosition axisSize contentSize position True = anchorOffset_spec axisSize contentSize position True"
  using assms by (auto simp: getPosition_def)

lemma getPosition_examples:
  "getPosition 500 100 BottomRight False = 380 \<and> getPosition 400 30 BottomRight True = 350
   \<and> getPosition 500 100 Center False = 200 \<and> getPosition 400 30 Center True = 185"
  by (simp add: getPosition_def)

text \<open>
  C3: the offset on each axis should follow that axis's component of the anchor. For the
  vertical axis \<open>getPosition\<close> does not: it never reads \<open>isVertical\<close> and tests
  \<open>left\<close>/\<open>right\<close> before \<open>top\<close>/\<open>bottom\<close>. With a canvas 400 high and content 30 high,
  \<open>TopRight\<close> gets the vertical offset 350 where the anchor asks for 20, and \<open>BottomLeft\<close>
  gets 20 where the anchor asks for 350; a 200 by 100 logo anchored \<open>TopRight\<close> in a 500
  by 400 canvas is drawn at the bottom right, at \<open>(405, 342.5)\<close>.
\<close>

theorem getPosition_ignores_vertical:
  "getPosition 400 30 TopRight True = 350
   \<and> anchorOffset_spec 400 30 TopRight True = 20
   \<and> getPosition 400 30 BottomLeft True = 20
   \<and> anchorOffset_spec 400 30 BottomLeft True = 350
   \<and> drawWatermarkLogo (Some \<lparr>width = 200, height = 100\<rparr>) TopRight 500 400
       = Some (405, 685 / 2, 75, 75 / 2)"
  by (simp add: getPosition_def drawWatermarkLogo_def Let_def)





section \<open>Properties of the crop extraction\<close>












text \<open>
  After the crop is committed the component draws the new image (the buffer) over the whole
  canvas; the frame then shows at every point the source point it showed before.
\<close>

lemma crop_commit_same_view:
  assumes "0 < scale t" and "0 < width canvas" and "0 < height canvas"
    and "0 < width img" and "0 < height img"
  shows "sourcePoint (drawCrop t canvas)
           (sourcePoint
              (drawMainImage False t' canvas
                 \<lparr>width = width canvas / scale t, height = height canvas / scale t\<rparr>)
              (px, py))
       = sourcePoint (drawMainImage True t canvas img) (px, py)"
  using assms
  by (simp add: drawCrop_def cropRect_def drawMainImage_def drawImage5_def drawImage9_def
      Let_def field_simps)

section \<open>Properties of the crop and regenerate handlers\<close>

lemma handleSelectAspectRatio_seed:
  assumes "ratio \<noteq> aspectRatio s"
    and "canvasRef s = Some canvas" and "imageDimensions s = Some dims"
  shows "transform (handleSelectAspectRatio ratio s) = coverTransform canvas dims"
  using assms by (simp add: handleSelectAspectRatio_def)

text \<open>
  C6, as stated: when \<open>transform.scale \<le> 0\<close> or the image is not loaded, crop extraction
  fails with a reported error, extracts nothing and keeps the prior state. It fails on
  both counts. With everything loaded and the scale \<open>-1\<close>, \<open>handleApplyCrop\<close> extracts: it
  replaces the display image by the data URL of the off-screen canvas, adopts the pending
  aspect ratio and reports no error. With the image dimensions not yet known it returns
  without reporting an error.
\<close>

theorem apply_crop_invalid_state_counterexample:
  "scale (transform negativeScaleState) \<le> 0
   \<and> error (handleApplyCrop exampleEnv negativeScaleState) = None
   \<and> displayImage negativeScaleState = Some ''data:image/png;base64,AAAA''
   \<and> displayImage (handleApplyCrop exampleEnv negativeScaleState)
       = Some ''data:image/png;base64,QUJD''
   \<and> aspectRatio negativeScaleState = ''original''
   \<and> aspectRatio (handleApplyCrop exampleEnv negativeScaleState) = ''1:1''
   \<and> pendingAspectRatio (handleApplyCrop exampleEnv negativeScaleState) = None
   \<and> imageDimensions notLoadedState = None
   \<and> error (handleApplyCrop exampleEnv notLoadedState) = None"
  by (simp add: handleApplyCrop_def negativeScaleState_def notLoadedState_def
      exampleState_def exampleEnv_def exampleToDataURL_def Let_def)

text \<open>
  C6, amended: for every state in which the display image, the image dimensions, the
  pending aspect ratio or the canvas is missing, \<open>handleApplyCrop\<close> performs no
  extraction and returns with the prior state unchanged. (The scale of the transform is
  not tested.)
\<close>

theorem apply_crop_not_ready:
  assumes "\<not> truthy (displayImage s) \<or> imageDimensions s = None
           \<or> \<not> truthy (pendingAspectRatio s) \<or> canvasRef s = None"
  shows "handleApplyCrop env s = s"
  using assms
  by (auto simp: handleApplyCrop_def truthy_def split: option.splits)

theorem apply_crop_not_ready_witness:
  "imageDimensions notLoadedState = None
   \<and> handleApplyCrop exampleEnv notLoadedState = notLoadedState"
proof -
  have h: "imageDimensions notLoadedState = None"
    by (simp add: notLoadedState_def)
  then have "\<not> truthy (displayImage notLoadedState) \<or> imageDimensions notLoadedState = None
      \<or> \<not> truthy (pendingAspectRatio notLoadedState) \<or> canvasRef notLoadedState = None"
    by simp
  then have "handleApplyCrop exampleEnv notLoadedState = notLoadedState"
    by (rule apply_crop_not_ready)
  with h show ?thesis by simp
qed

lemma regenerate_failure_message:
  assumes "outcome = Throws e \<or> (\<exists>r. outcome = Returns r \<and> firstInlineData (responseParts r) = None)"
    and "generateContent' b m (regeneratePrompt label) = outcome"
  shows "\<exists>message. regenerateImageToAspectRatio generateContent' b m label = Inl message
       \<and> (\<forall>u. outcome = Throws (ErrorWith u) \<longrightarrow> message = ''Failed to regenerate image: '' @ u)
       \<and> (\<forall>r. outcome = Returns r \<longrightarrow> message =
             ''Failed to regenerate image: No image data found in the response from regeneration.'')"
  using assms
  by (cases e) (auto simp: regenerateImageToAspectRatio_def Let_def)

lemma handleRegenerate_failure:
  assumes "originalImage s = Some orig" and "pendingAspectRatio s = Some pending"
    and "pending \<noteq> []"
    and "tryRegenerate env s orig pending = Some (Inl message)"
  shows "handleRegenerate env s
       = Some (s\<lparr>activeOperation := None, error := Some message, pendingAspectRatio := None\<rparr>)"
  using assms by (simp add: handleRegenerate_def Let_def)

text \<open>
  C7, as stated: whenever the external generation call throws or returns no image data,
  the error is reported and the display image, the original image and the committed
  aspect ratio keep their values. It fails for a response whose part has an \<open>inlineData\<close>
  without image data (the empty string): \<open>regenerateImageToAspectRatio\<close> tests only that
  \<open>inlineData\<close> is present and returns its \<open>data\<close>, and \<open>handleRegenerate\<close> commits: the
  display image becomes \<open>data:image/png;base64,\<close>, the original image gets the empty
  data, the pending aspect ratio is adopted, and no error is reported.
\<close>

theorem regenerate_empty_data_counterexample:
  "generateContent emptyDataEnv (Some ''QUJD'') ''image/png'' (regeneratePrompt ''1:1'')
       = Returns \<lparr>candidates =
           Some [\<lparr>parts = Some [\<lparr>inlineData = Some \<lparr>data = Some []\<rparr>\<rparr>]\<rparr>]\<rparr>
   \<and> displayImage exampleState = Some ''data:image/png;base64,AAAA''
   \<and> aspectRatio exampleState = ''original''
   \<and> handleRegenerate emptyDataEnv exampleState
       = Some (exampleState
           \<lparr>originalImage := Some \<lparr>base64 = Some [], mimeType = ''image/png''\<rparr>,
            displayImage := Some ''data:image/png;base64,'',
            error := None,
            aspectRatio := ''1:1'',
            pendingAspectRatio := None\<rparr>)"
  by (simp add: handleRegenerate_def tryRegenerate_def regenerateImageToAspectRatio_def
      responseParts_def interpolate_def exampleState_def emptyDataEnv_def exampleEnv_def
      emptyData_def Let_def)

text \<open>
  C7, amended: in every run of \<open>handleRegenerate\<close> that reaches the external generation
  call (original image and pending aspect ratio set, display image, dimensions and canvas
  ready, the image decodes, the off-screen context exists), if that call throws or
  returns a response in which no part has an \<open>inlineData\<close>, then the handler completes,
  the error message is reported (for a thrown \<open>Error\<close> and for such a response it carries
  the underlying message), the display image, the original image and the committed aspect
  ratio are those from before the call, and the pending aspect-ratio selection is cleared.
\<close>

theorem regenerate_failure_rolls_back:
  assumes "originalImage s = Some orig" and "pendingAspectRatio s = Some pending"
    and "pending \<noteq> []"
    and "displayImage s = Some display" and "display \<noteq> []"
    and "imageDimensions s = Some dims" and "canvasRef s = Some cv"
    and "imageLoads env" and "getContext2d env"
    and "generateContent env
           (secondPiece (toDataURL env display (offscreenCrop (transform s) cv) (mimeType orig)))
           (mimeType orig) (regeneratePrompt pending) = outcome"
    and "outcome = Throws e \<or> (\<exists>r. outcome = Returns r \<and> firstInlineData (responseParts r) = None)"
  shows "\<exists>s' message. handleRegenerate env s = Some s'
       \<and> error s' = Some message
       \<and> (\<forall>u. outcome = Throws (ErrorWith u) \<longrightarrow> message = ''Failed to regenerate image: '' @ u)
       \<and> (\<forall>r. outcome = Returns r \<longrightarrow> message =
             ''Failed to regenerate image: No image data found in the response from regeneration.'')
       \<and> displayImage s' = displayImage s
       \<and> originalImage s' = originalImage s
       \<and> aspectRatio s' = aspectRatio s
       \<and> transform s' = transform s
       \<and> pendingAspectRatio s' = None
       \<and> activeOperation s' = None"
proof -
  let ?b = "secondPiece (toDataURL env display (offscreenCrop (transform s) cv) (mimeType orig))"
  from assms(11) assms(10)
    regenerate_failure_message [of outcome e "generateContent env" ?b "mimeType orig" pending]
  obtain message where
    m: "regenerateImageToAspectRatio (generateContent env) ?b (mimeType orig) pending = Inl message"
    and thrown: "\<forall>u. outcome = Throws (ErrorWith u) \<longrightarrow> message = ''Failed to regenerate image: '' @ u"
    and nodata: "\<forall>r. outcome = Returns r \<longrightarrow> message =
             ''Failed to regenerate image: No image data found in the response from regeneration.''"
    by blast
  have "tryRegenerate env s orig pending = Some (Inl message)"
    using assms(3-9) m by (simp add: tryRegenerate_def Let_def)
  then have "handleRegenerate env s
      = Some (s\<lparr>activeOperation := None, error := Some message, pendingAspectRatio := None\<rparr>)"
    using assms(1-3) by (rule handleRegenerate_failure [rotated 3])
  with thrown nodata show ?thesis by simp
qed

theorem regenerate_failure_rolls_back_witness:
  "originalImage exampleState = Some \<lparr>base64 = Some ''AAAA'', mimeType = ''image/png''\<rparr>
   \<and> pendingAspectRatio exampleState = Some ''1:1''
   \<and> displayImage exampleState = Some ''data:image/png;base64,AAAA''
   \<and> imageDimensions exampleState = Some \<lparr>width = 100, height = 100\<rparr>
   \<and> canvasRef exampleState = Some \<lparr>width = 200, height = 200\<rparr>
   \<and> imageLoads exampleEnv \<and> getContext2d exampleEnv
   \<and> generateContent exampleEnv (Some ''QUJD'') ''image/png'' (regeneratePrompt ''1:1'')
       = Throws (ErrorWith ''quota exceeded'')
   \<and> handleRegenerate exampleEnv exampleState
       = Some (exampleState\<lparr>error := Some ''Failed to regenerate image: quota exceeded'',
                            pendingAspectRatio := None\<rparr>)"
proof -
  have v: "handleRegenerate exampleEnv exampleState
      = Some (exampleState\<lparr>error := Some ''Failed to regenerate image: quota exceeded'',
                           pendingAspectRatio := None\<rparr>)"
    by (simp add: handleRegenerate_def tryRegenerate_def regenerateImageToAspectRatio_def
        exampleState_def exampleEnv_def quotaExceeded_def Let_def)
  have g: "generateContent exampleEnv
      (secondPiece (toDataURL exampleEnv ''data:image/png;base64,AAAA''
         (offscreenCrop (transform exampleState) \<lparr>width = 200, height = 200\<rparr>) ''image/png''))
      ''image/png'' (regeneratePrompt ''1:1'') = Throws (ErrorWith ''quota exceeded'')"
    by (simp add: exampleEnv_def quotaExceeded_def)
  have "\<exists>s' message. handleRegenerate exampleEnv exampleState = Some s'
      \<and> error s' = Some message \<and> pendingAspectRatio s' = None"
    using regenerate_failure_rolls_back [of exampleState
        "\<lparr>base64 = Some ''AAAA'', mimeType = ''image/png''\<rparr>" "''1:1''"
        "''data:image/png;base64,AAAA''" "\<lparr>width = 100, height = 100\<rparr>"
        "\<lparr>width = 200, height = 200\<rparr>" exampleEnv "Throws (ErrorWith ''quota exceeded'')"
        "ErrorWith ''quota exceeded''"] g
    by (auto simp: exampleState_def exampleEnv_def)
  with v show ?thesis
    by (simp add: exampleState_def exampleEnv_def quotaExceeded_def)
qed

end
